theory Spec2Isabelle
  imports Complex_Main "HOL-Library.Multiset"
begin

section \<open>Numbers, errors and the library functions the code calls\<close>

text \<open>
  The address book stores coordinates as Python floats and computes distances with the
  functions of Python's \<^verbatim>\<open>math\<close> module. A float is the real number it denotes
  (infinities and NaN are outside the model). The arithmetic of the floats is a parameter
  of every function that computes with them: \<open>rnd\<close> rounds the exact result of
  \<^verbatim>\<open>+\<close>, \<^verbatim>\<open>-\<close>, \<^verbatim>\<open>*\<close>, \<^verbatim>\<open>/\<close> and of a decimal literal to the float that represents it,
  and the library functions \<^verbatim>\<open>math.radians\<close>, \<^verbatim>\<open>math.sin\<close>, \<^verbatim>\<open>math.cos\<close>, \<^verbatim>\<open>math.sqrt\<close>,
  \<^verbatim>\<open>math.atan2\<close> and the power \<^verbatim>\<open>x ** 2\<close> are what the platform computes. What the library
  does outside its domain is part of the model: \<^verbatim>\<open>math.sqrt\<close> raises \<^verbatim>\<open>ValueError\<close> on
  a negative argument.
\<close>

datatype py_error = ValueError | IntegrityError

record float_ops =
  rnd :: "real \<Rightarrow> real"
  fradians :: "real \<Rightarrow> real"
  fsin :: "real \<Rightarrow> real"
  fcos :: "real \<Rightarrow> real"
  fsqrt :: "real \<Rightarrow> real"
  fatan2 :: "real \<Rightarrow> real \<Rightarrow> real"
  fpow2 :: "real \<Rightarrow> real"

definition EARTH_RADIUS_KM :: real where
  \<comment> \<open>\<^verbatim>\<open>settings.EARTH_RADIUS_KM\<close>, app/core/config.py\<close>
  "EARTH_RADIUS_KM = 6371"

definition radians :: "real \<Rightarrow> real" where
  \<comment> \<open>degrees to radians, exactly\<close>
  "radians x = x * pi / 180"

definition py_sqrt :: "float_ops \<Rightarrow> real \<Rightarrow> py_error + real" where
  \<comment> \<open>\<^verbatim>\<open>math.sqrt(x)\<close>\<close>
  "py_sqrt fp x = (if x < 0 then Inl ValueError else Inr (fsqrt fp x))"

definition atan2 :: "real \<Rightarrow> real \<Rightarrow> real" where
  \<comment> \<open>the angle of the point \<open>(x, y)\<close>, in \<open>(-pi, pi]\<close>, exactly\<close>
  "atan2 y x =
     (if 0 < x then arctan (y / x)
      else if x < 0 then (if 0 \<le> y then arctan (y / x) + pi else arctan (y / x) - pi)
      else if 0 < y then pi / 2
      else if y < 0 then - (pi / 2)
      else 0)"

definition round_half_even :: "real \<Rightarrow> int" where
  "round_half_even y =
     (let f = \<lfloor>y\<rfloor> in
      if y - of_int f < 1 / 2 then f
      else if 1 / 2 < y - of_int f then f + 1
      else if even f then f else f + 1)"

definition py_round :: "float_ops \<Rightarrow> real \<Rightarrow> nat \<Rightarrow> real" where
  \<comment> \<open>\<^verbatim>\<open>round(x, ndigits)\<close>: the float of the multiple of \<open>10 ^ -ndigits\<close> nearest to \<open>x\<close>,
      ties to the even multiple\<close>
  "py_round fp x ndigits = rnd fp (of_int (round_half_even (x * 10 ^ ndigits)) / 10 ^ ndigits)"

definition exact_ops :: float_ops where
  \<comment> \<open>the arithmetic without rounding\<close>
  "exact_ops =
     \<lparr>rnd = (\<lambda>x. x), fradians = radians, fsin = sin, fcos = cos, fsqrt = sqrt,
      fatan2 = atan2, fpow2 = (\<lambda>x. x\<^sup>2)\<rparr>"

definition two_digit_ops :: float_ops where
  \<comment> \<open>an arithmetic whose sine and cosine are rounded to two decimals, exact otherwise\<close>
  "two_digit_ops =
     exact_ops\<lparr>fsin := (\<lambda>x. py_round exact_ops (sin x) 2),
                 fcos := (\<lambda>x. py_round exact_ops (cos x) 2)\<rparr>"

section \<open>The distance calculator (app/crud/address.py)\<close>

definition haversine_a :: "float_ops \<Rightarrow> real \<Rightarrow> real \<Rightarrow> real \<Rightarrow> real \<Rightarrow> real" where
  \<comment> \<open>lines 180 to 188 of \<^verbatim>\<open>calculate_distance\<close>: the value bound to \<^verbatim>\<open>a\<close>\<close>
  "haversine_a fp lat1 lon1 lat2 lon2 =
     (let lat1_rad = fradians fp lat1;
          lon1_rad = fradians fp lon1;
          lat2_rad = fradians fp lat2;
          lon2_rad = fradians fp lon2;
          dlat = rnd fp (lat2_rad - lat1_rad);
          dlon = rnd fp (lon2_rad - lon1_rad)
      in rnd fp (fpow2 fp (fsin fp (rnd fp (dlat / 2)))
                 + rnd fp (rnd fp (fcos fp lat1_rad * fcos fp lat2_rad)
                           * fpow2 fp (fsin fp (rnd fp (dlon / 2))))))"

definition central_angle :: "float_ops \<Rightarrow> real \<Rightarrow> py_error + real" where
  \<comment> \<open>line 189: \<^verbatim>\<open>c = 2 * atan2(sqrt(a), sqrt(1 - a))\<close>\<close>
  "central_angle fp a =
     (case py_sqrt fp a of
        Inl e \<Rightarrow> Inl e
      | Inr sa \<Rightarrow>
          (case py_sqrt fp (rnd fp (1 - a)) of
             Inl e \<Rightarrow> Inl e
           | Inr sb \<Rightarrow> Inr (rnd fp (2 * fatan2 fp sa sb))))"

definition calculate_distance ::
  "float_ops \<Rightarrow> real \<Rightarrow> real \<Rightarrow> real \<Rightarrow> real \<Rightarrow> py_error + real" where
  "calculate_distance fp lat1 lon1 lat2 lon2 =
     (case central_angle fp (haversine_a fp lat1 lon1 lat2 lon2) of
        Inl e \<Rightarrow> Inl e
      | Inr c \<Rightarrow> Inr (rnd fp (EARTH_RADIUS_KM * c)))"

section \<open>The data model (app/schemas/address.py, app/models/address.py)\<close>

text \<open>
  A \<^verbatim>\<open>datetime\<close> is a point on a discrete clock. The three classes share field names;
  a selector is written with its class where two are in scope
  (\<open>LocationQuery.latitude\<close>, \<open>Address.latitude\<close>). The column \<^verbatim>\<open>id\<close> is \<open>id'\<close>.
\<close>

type_synonym datetime = nat

record LocationQuery =
  latitude :: real
  longitude :: real
  radius_km :: real

datatype 'a field = Unset | Given 'a

record AddressUpdate =
  street :: "string option field"
  city :: "string option field"
  state :: "string option field"
  country :: "string option field"
  postal_code :: "string option field"
  latitude :: "real option field"
  longitude :: "real option field"

record Address =
  id' :: int
  street :: string
  city :: string
  state :: "string option"
  country :: string
  postal_code :: "string option"
  latitude :: real
  longitude :: real
  created_at :: datetime
  updated_at :: datetime

record AddressWithDistance = Address +
  distance_km :: real

text \<open>
  The session is the table \<^verbatim>\<open>addresses\<close>: its rows, in the order in which
  \<^verbatim>\<open>db.query(Address).all()\<close> returns them.
\<close>

type_synonym Session = "Address list"

section \<open>The store operations (app/crud/address.py)\<close>







fun nearby_loop ::
  "float_ops \<Rightarrow> real \<Rightarrow> real \<Rightarrow> real \<Rightarrow> Address list \<Rightarrow> Address list
     \<Rightarrow> py_error + Address list" where
  \<comment> \<open>the \<^verbatim>\<open>for\<close> loop of \<^verbatim>\<open>get_addresses_within_radius\<close>, lines 151 to 157\<close>
  "nearby_loop fp lat lon radius [] nearby_addresses = Inr nearby_addresses"
| "nearby_loop fp lat lon radius (address # rest) nearby_addresses =
     (case calculate_distance fp lat lon (Address.latitude address) (Address.longitude address) of
        Inl e \<Rightarrow> Inl e
      | Inr distance \<Rightarrow>
          nearby_loop fp lat lon radius rest
            (if distance \<le> radius then nearby_addresses @ [address] else nearby_addresses))"

definition get_addresses_within_radius ::
  "float_ops \<Rightarrow> Session \<Rightarrow> real \<Rightarrow> real \<Rightarrow> real \<Rightarrow> py_error + Address list" where
  "get_addresses_within_radius fp db lat lon radius =
     (let all_addresses = db in nearby_loop fp lat lon radius all_addresses [])"

section \<open>The proximity endpoint (app/api/routes/addresses.py)\<close>

datatype constraint = greater_than_equal | less_than_equal | greater_than

datatype http_error =
  HTTPException nat string
  | RequestValidationError "(string \<times> constraint) list"

fun distance_loop ::
  "float_ops \<Rightarrow> LocationQuery \<Rightarrow> Address list \<Rightarrow> AddressWithDistance list
     \<Rightarrow> py_error + AddressWithDistance list" where
  \<comment> \<open>the \<^verbatim>\<open>for\<close> loop of \<^verbatim>\<open>get_nearby_addresses\<close>, lines 130 to 141\<close>
  "distance_loop fp location [] addresses_with_distance = Inr addresses_with_distance"
| "distance_loop fp location (address # rest) addresses_with_distance =
     (case calculate_distance fp (LocationQuery.latitude location)
             (LocationQuery.longitude location)
             (Address.latitude address) (Address.longitude address) of
        Inl e \<Rightarrow> Inl e
      | Inr distance \<Rightarrow>
          distance_loop fp location rest
            (addresses_with_distance @
               [Address.extend address (AddressWithDistance.fields (py_round fp distance 2))]))"

definition rank_addresses ::
  "float_ops \<Rightarrow> LocationQuery \<Rightarrow> Address list \<Rightarrow> py_error + AddressWithDistance list" where
  \<comment> \<open>lines 129 to 145: the loop, then \<^verbatim>\<open>list.sort\<close> with the key \<^verbatim>\<open>distance_km\<close>.
      \<^verbatim>\<open>list.sort\<close> is a stable sort; \<open>sort_key\<close> is the stable insertion sort.\<close>
  "rank_addresses fp location addresses =
     (case distance_loop fp location addresses [] of
        Inl e \<Rightarrow> Inl e
      | Inr addresses_with_distance \<Rightarrow> Inr (sort_key distance_km addresses_with_distance))"

definition get_nearby_addresses ::
  "float_ops \<Rightarrow> Session \<Rightarrow> LocationQuery \<Rightarrow> http_error + AddressWithDistance list" where
  "get_nearby_addresses fp db location =
     (case get_addresses_within_radius fp db (LocationQuery.latitude location)
             (LocationQuery.longitude location) (radius_km location) of
        Inl e \<Rightarrow> Inl (HTTPException 500 ''Failed to find nearby addresses'')
      | Inr addresses \<Rightarrow>
          (case rank_addresses fp location addresses of
             Inl e \<Rightarrow> Inl (HTTPException 500 ''Failed to find nearby addresses'')
           | Inr addresses_with_distance \<Rightarrow> Inr addresses_with_distance))"

definition check_ge_le :: "string \<Rightarrow> real \<Rightarrow> real \<Rightarrow> real \<Rightarrow> (string \<times> constraint) list" where
  \<comment> \<open>\<^verbatim>\<open>Field(..., ge=lo, le=hi)\<close>\<close>
  "check_ge_le name lo hi v =
     (if \<not> lo \<le> v then [(name, greater_than_equal)]
      else if \<not> v \<le> hi then [(name, less_than_equal)]
      else [])"

definition check_gt :: "string \<Rightarrow> real \<Rightarrow> real \<Rightarrow> (string \<times> constraint) list" where
  \<comment> \<open>\<^verbatim>\<open>Field(..., gt=lo)\<close>\<close>
  "check_gt name lo v = (if \<not> lo < v then [(name, greater_than)] else [])"

definition validate_LocationQuery ::
  "real \<Rightarrow> real \<Rightarrow> real \<Rightarrow> (string \<times> constraint) list + LocationQuery" where
  \<comment> \<open>the constraints declared on the fields of \<^verbatim>\<open>LocationQuery\<close>, app/models/address.py\<close>
  "validate_LocationQuery lat lon radius =
     (let errors = check_ge_le ''latitude'' (- 90) 90 lat
                 @ check_ge_le ''longitude'' (- 180) 180 lon
                 @ check_gt ''radius_km'' 0 radius
      in if errors = []
         then Inr \<lparr>LocationQuery.latitude = lat, LocationQuery.longitude = lon, radius_km = radius\<rparr>
         else Inl errors)"

definition post_addresses_nearby ::
  "float_ops \<Rightarrow> Session \<Rightarrow> real \<Rightarrow> real \<Rightarrow> real
     \<Rightarrow> http_error + AddressWithDistance list" where
  \<comment> \<open>the route \<^verbatim>\<open>POST /addresses/nearby\<close>: the request body is validated as a
      \<^verbatim>\<open>LocationQuery\<close> before the handler is called; a body that fails is answered
      with the validation errors and the handler does not run\<close>
  "post_addresses_nearby fp db lat lon radius =
     (case validate_LocationQuery lat lon radius of
        Inl errors \<Rightarrow> Inl (RequestValidationError errors)
      | Inr location \<Rightarrow> get_nearby_addresses fp db location)"

section \<open>Sample data\<close>

definition fixture_address :: "int \<Rightarrow> real \<Rightarrow> real \<Rightarrow> Address" where
  \<comment> \<open>a stored row with the given key and coordinates\<close>
  "fixture_address i lat lon =
     \<lparr>id' = i, street = ''1 Main Street'', city = ''Quito'', state = None,
      country = ''Ecuador'', postal_code = None, latitude = lat, longitude = lon,
      created_at = 0, updated_at = 0\<rparr>"

section \<open>The exact arithmetic\<close>

text \<open>
  Without rounding the value \<open>a\<close> of the Haversine formula lies in \<open>[0, 1]\<close> for all
  coordinates, both square roots are defined and \<open>calculate_distance\<close> returns. With
  rounding this is no longer so, which is why the results below that need a computed
  distance say which arithmetic they speak of.
\<close>

lemma exact_ops_simps [simp]:
  "rnd exact_ops x = x"
  "fradians exact_ops = radians"
  "fsin exact_ops = sin"
  "fcos exact_ops = cos"
  "fsqrt exact_ops = sqrt"
  "fatan2 exact_ops = atan2"
  "fpow2 exact_ops x = x\<^sup>2"
  by (simp_all add: exact_ops_def)

lemma two_digit_ops_simps [simp]:
  "rnd two_digit_ops x = x"
  "fradians two_digit_ops = radians"
  "fsin two_digit_ops x = py_round exact_ops (sin x) 2"
  "fcos two_digit_ops x = py_round exact_ops (cos x) 2"
  "fsqrt two_digit_ops = sqrt"
  "fatan2 two_digit_ops = atan2"
  "fpow2 two_digit_ops x = x\<^sup>2"
  by (simp_all add: two_digit_ops_def)

lemma haversine_a_exact:
  "haversine_a exact_ops lat1 lon1 lat2 lon2 =
     (sin ((radians lat2 - radians lat1) / 2))\<^sup>2
     + cos (radians lat1) * cos (radians lat2) * (sin ((radians lon2 - radians lon1) / 2))\<^sup>2"
  by (simp add: haversine_a_def Let_def)

lemma haversine_a_alt:
  "haversine_a exact_ops lat1 lon1 lat2 lon2 =
     ((1 - cos (radians lat2 - radians lat1)) * (1 - (sin ((radians lon2 - radians lon1) / 2))\<^sup>2)
      + (sin ((radians lon2 - radians lon1) / 2))\<^sup>2 * (1 + cos (radians lat1 + radians lat2))) / 2"
proof -
  have h: "(sin (d / 2))\<^sup>2 = (1 - cos d) / 2" for d :: real
    using cos_double_sin [of "d / 2"] by simp
  have c: "cos x * cos y = (cos (y - x) + cos (x + y)) / 2" for x y :: real
    using cos_times_cos [of y x] by (simp add: add.commute mult.commute)
  show ?thesis
    unfolding haversine_a_exact h [of "radians lat2 - radians lat1"] c
    by (simp add: field_simps)
qed

lemma one_plus_cos_nonneg: "0 \<le> 1 + cos (x::real)"
  using cos_ge_minus_one [of x] by linarith

lemma haversine_a_ge0: "0 \<le> haversine_a exact_ops lat1 lon1 lat2 lon2"
proof -
  let ?s = "(sin ((radians lon2 - radians lon1) / 2))\<^sup>2"
  have s1: "?s \<le> 1" by (simp add: sin_squared_eq)
  have "0 \<le> (1 - cos (radians lat2 - radians lat1)) * (1 - ?s)"
    using s1 by (intro mult_nonneg_nonneg) simp_all
  moreover have "0 \<le> ?s * (1 + cos (radians lat1 + radians lat2))"
    by (intro mult_nonneg_nonneg) (simp_all add: one_plus_cos_nonneg)
  ultimately show ?thesis
    unfolding haversine_a_alt by simp
qed

lemma haversine_a_le1: "haversine_a exact_ops lat1 lon1 lat2 lon2 \<le> 1"
proof -
  let ?s = "(sin ((radians lon2 - radians lon1) / 2))\<^sup>2"
  let ?d = "cos (radians lat2 - radians lat1)"
  let ?p = "cos (radians lat1 + radians lat2)"
  have s1: "?s \<le> 1" by (simp add: sin_squared_eq)
  have a: "0 \<le> (1 + ?d) * (1 - ?s)"
    using s1 by (intro mult_nonneg_nonneg) (simp_all add: one_plus_cos_nonneg)
  have b: "0 \<le> ?s * (1 - ?p)"
    by (intro mult_nonneg_nonneg) simp_all
  have e: "1 - haversine_a exact_ops lat1 lon1 lat2 lon2 = ((1 + ?d) * (1 - ?s) + ?s * (1 - ?p)) / 2"
    unfolding haversine_a_alt by (simp add: field_simps)
  have "0 \<le> ((1 + ?d) * (1 - ?s) + ?s * (1 - ?p)) / 2"
    using a b by (intro divide_nonneg_nonneg add_nonneg_nonneg) simp_all
  then have "0 \<le> 1 - haversine_a exact_ops lat1 lon1 lat2 lon2"
    by (simp only: e)
  then show ?thesis by simp
qed

lemma atan2_quadrant1: "0 \<le> y \<Longrightarrow> 0 \<le> x \<Longrightarrow> 0 \<le> atan2 y x \<and> atan2 y x \<le> pi / 2"
  unfolding atan2_def
  using arctan_ubound [of "y / x"] arctan_monotone' [of 0 "y / x"]
  by (auto simp: not_less)

section \<open>What the distance calculator returns\<close>

lemma calculate_distance_cases:
  "calculate_distance fp lat1 lon1 lat2 lon2 =
     (if haversine_a fp lat1 lon1 lat2 lon2 < 0
         \<or> rnd fp (1 - haversine_a fp lat1 lon1 lat2 lon2) < 0
      then Inl ValueError
      else Inr (rnd fp (EARTH_RADIUS_KM * rnd fp (2 *
             fatan2 fp (fsqrt fp (haversine_a fp lat1 lon1 lat2 lon2))
               (fsqrt fp (rnd fp (1 - haversine_a fp lat1 lon1 lat2 lon2)))))))"
  by (simp add: calculate_distance_def central_angle_def py_sqrt_def)

lemma calculate_distance_error:
  "calculate_distance fp lat1 lon1 lat2 lon2 = Inl e \<Longrightarrow> e = ValueError"
  unfolding calculate_distance_cases by (simp split: if_splits)

lemma calculate_distance_exact_value:
  "calculate_distance exact_ops lat1 lon1 lat2 lon2 =
     Inr (EARTH_RADIUS_KM * (2 * atan2 (sqrt (haversine_a exact_ops lat1 lon1 lat2 lon2))
                                     (sqrt (1 - haversine_a exact_ops lat1 lon1 lat2 lon2))))"
  unfolding calculate_distance_cases
  using haversine_a_ge0 [of lat1 lon1 lat2 lon2] haversine_a_le1 [of lat1 lon1 lat2 lon2]
  by simp

lemma calculate_distance_exact_range:
  "\<exists>d. calculate_distance exact_ops lat1 lon1 lat2 lon2 = Inr d \<and> 0 \<le> d
       \<and> d \<le> EARTH_RADIUS_KM * pi"
proof -
  let ?a = "haversine_a exact_ops lat1 lon1 lat2 lon2"
  have "0 \<le> atan2 (sqrt ?a) (sqrt (1 - ?a)) \<and> atan2 (sqrt ?a) (sqrt (1 - ?a)) \<le> pi / 2"
    by (rule atan2_quadrant1) (simp_all add: haversine_a_ge0 haversine_a_le1)
  then show ?thesis
    unfolding calculate_distance_exact_value by (simp add: EARTH_RADIUS_KM_def)
qed

lemma calculate_distance_exact_same: "calculate_distance exact_ops lat lon lat lon = Inr 0"
  unfolding calculate_distance_exact_value
  by (simp add: haversine_a_exact atan2_def)

lemma pi_ge_three: "3 \<le> pi"
proof -
  have "sin (pi / 6) \<le> pi / 6"
    by (rule sin_x_le_x) simp
  then show ?thesis by (simp add: sin_30)
qed

lemma atan2_sin_cos:
  assumes "0 \<le> t" "t \<le> pi / 2"
  shows "atan2 (sin t) (cos t) = t"
proof (cases "t = pi / 2")
  case True
  show ?thesis unfolding True atan2_def by simp
next
  case False
  with assms have lt: "t < pi / 2" by simp
  have "- (pi / 2) < t" using assms(1) pi_half_gt_zero by linarith
  then have c: "0 < cos t" using lt by (rule cos_gt_zero_pi)
  have "arctan (sin t / cos t) = t"
    using arctan_tan [of t] \<open>- (pi / 2) < t\<close> lt by (simp add: tan_def)
  with c show ?thesis by (simp add: atan2_def)
qed

lemma calculate_distance_equator:
  assumes "0 \<le> lon" "lon \<le> 180"
  shows "calculate_distance exact_ops 0 0 0 lon = Inr (EARTH_RADIUS_KM * radians lon)"
proof -
  let ?t = "radians lon / 2"
  have t0: "0 \<le> ?t" using assms(1) by (simp add: radians_def)
  have "lon * pi \<le> 180 * pi" using assms(2) by (simp add: mult_right_mono)
  then have t1: "?t \<le> pi / 2" by (simp add: radians_def)
  have s: "0 \<le> sin ?t" using t0 t1 pi_half_gt_zero by (intro sin_ge_zero) linarith+
  have c: "0 \<le> cos ?t" using t0 t1 pi_half_gt_zero by (intro cos_ge_zero) linarith+
  have a: "haversine_a exact_ops 0 0 0 lon = (sin ?t)\<^sup>2"
    by (simp add: haversine_a_exact radians_def)
  have b: "1 - (sin ?t)\<^sup>2 = (cos ?t)\<^sup>2"
    by (simp add: cos_squared_eq)
  have "atan2 (sqrt ((sin ?t)\<^sup>2)) (sqrt (1 - (sin ?t)\<^sup>2)) = ?t"
    unfolding b using s c atan2_sin_cos [OF t0 t1] by simp
  then show ?thesis
    unfolding calculate_distance_exact_value a by simp
qed

lemma haversine_a_swap:
  assumes "\<forall>x. rnd fp (- x) = - rnd fp x" "\<forall>x. fsin fp (- x) = - fsin fp x"
    "\<forall>x. fpow2 fp (- x) = fpow2 fp x"
  shows "haversine_a fp lat1 lon1 lat2 lon2 = haversine_a fp lat2 lon2 lat1 lon1"
proof -
  have flip: "fpow2 fp (fsin fp (rnd fp (rnd fp (x - y) / 2)))
      = fpow2 fp (fsin fp (rnd fp (rnd fp (y - x) / 2)))" for x y
  proof -
    have "rnd fp (x - y) = - rnd fp (y - x)"
      using assms(1) [rule_format, of "y - x"] by simp
    then have "rnd fp (rnd fp (x - y) / 2) = - rnd fp (rnd fp (y - x) / 2)"
      using assms(1) [rule_format, of "rnd fp (y - x) / 2"] by simp
    then show ?thesis
      using assms(2) [rule_format, of "rnd fp (rnd fp (y - x) / 2)"]
        assms(3) [rule_format, of "fsin fp (rnd fp (rnd fp (y - x) / 2))"]
      by simp
  qed
  show ?thesis
    unfolding haversine_a_def Let_def
    by (simp add: flip [of "fradians fp lat2" "fradians fp lat1"]
        flip [of "fradians fp lon2" "fradians fp lon1"] mult.commute)
qed

section \<open>Rounding\<close>

lemma round_half_even_nearest: "\<bar>of_int (round_half_even y) - y\<bar> \<le> 1 / 2"
proof -
  have "of_int \<lfloor>y\<rfloor> \<le> y" "y < of_int \<lfloor>y\<rfloor> + 1" by linarith+
  then show ?thesis
    by (auto simp: round_half_even_def Let_def)
qed

lemma round_half_even_tie:
  "\<bar>of_int (round_half_even y) - y\<bar> = 1 / 2 \<Longrightarrow> even (round_half_even y)"
proof -
  assume t: "\<bar>of_int (round_half_even y) - y\<bar> = 1 / 2"
  have f: "of_int \<lfloor>y\<rfloor> \<le> y" "y < of_int \<lfloor>y\<rfloor> + 1" by linarith+
  show ?thesis
    using t f by (auto simp: round_half_even_def Let_def split: if_splits)
qed

lemma round_half_even_int: "round_half_even (of_int k) = k"
  by (simp add: round_half_even_def)

lemma round_half_even_up:
  "1 / 2 < y \<Longrightarrow> y < 1 \<Longrightarrow> round_half_even y = 1"
proof -
  assume a: "1 / 2 < y" "y < 1"
  then have "\<lfloor>y\<rfloor> = 0" by (simp add: floor_eq_iff)
  with a show ?thesis by (simp add: round_half_even_def)
qed

lemma py_round_exact_zero: "py_round exact_ops 0 2 = 0"
  by (simp add: py_round_def round_half_even_def)

lemma py_round_exact_one: "py_round exact_ops 1 2 = 1"
  using round_half_even_int [of 100] by (simp add: py_round_def)

lemma py_round_two_digits:
  "\<exists>k. py_round fp d 2 = rnd fp (of_int k / 100) \<and> \<bar>of_int k / 100 - d\<bar> \<le> 1 / 200
       \<and> (\<bar>of_int k / 100 - d\<bar> = 1 / 200 \<longrightarrow> even k)"
proof -
  let ?k = "round_half_even (d * 100)"
  have n: "\<bar>of_int ?k - d * 100\<bar> \<le> 1 / 2" by (rule round_half_even_nearest)
  have e: "\<bar>of_int ?k / 100 - d\<bar> = \<bar>of_int ?k - d * 100\<bar> / 100"
    by (simp add: abs_if field_simps)
  have 1: "\<bar>of_int ?k / 100 - d\<bar> \<le> 1 / 200" unfolding e using n by simp
  have 2: "even ?k" if "\<bar>of_int ?k / 100 - d\<bar> = 1 / 200"
  proof -
    from that have "\<bar>of_int ?k - d * 100\<bar> = 1 / 2" unfolding e by simp
    then show ?thesis by (rule round_half_even_tie)
  qed
  have "py_round fp d 2 = rnd fp (of_int ?k / 100)" by (simp add: py_round_def)
  with 1 2 show ?thesis by blast
qed

lemma sqrt2_bounds: "141 / 100 < sqrt 2" "sqrt 2 < 142 / 100"
proof -
  show "141 / 100 < sqrt 2"
    by (rule real_less_rsqrt) (simp add: power2_eq_square)
  show "sqrt 2 < 142 / 100"
    by (rule real_less_lsqrt) (simp_all add: power2_eq_square)
qed

lemma py_round_half_sqrt2: "py_round exact_ops (sqrt 2 / 2) 2 = 71 / 100"
proof -
  have lo: "70 + 1 / 2 < sqrt 2 / 2 * 100" using sqrt2_bounds(1) by simp
  have hi: "sqrt 2 / 2 * 100 < 71" using sqrt2_bounds(2) by simp
  have fl: "\<lfloor>sqrt 2 / 2 * 100\<rfloor> = 70"
    using lo hi by (simp add: floor_eq_iff)
  have "round_half_even (sqrt 2 / 2 * 100) = 71"
    using lo unfolding round_half_even_def Let_def fl by simp
  then show ?thesis
    unfolding py_round_def by simp
qed

section \<open>The arithmetic with two-digit sine and cosine\<close>

lemma haversine_a_two_digit:
  "haversine_a two_digit_ops (- 45) (- 180) 45 0 = 10082 / 10000"
proof -
  have r: "radians (- 45) = - (pi / 4)" "radians 45 = pi / 4" "radians (- 180) = - pi"
    "radians 0 = 0"
    by (simp_all add: radians_def)
  have c: "cos (- (pi / 4)) = sqrt 2 / 2" by (simp add: cos_45)
  have h: "(pi / 4 - - (pi / 4)) / 2 = pi / 4" "(0 - - pi) / 2 = pi / 2" by simp_all
  show ?thesis
    unfolding haversine_a_def Let_def two_digit_ops_simps r h c sin_45 cos_45
      py_round_half_sqrt2 sin_pi_half py_round_exact_one
    by (simp add: power2_eq_square)
qed

lemma calculate_distance_two_digit:
  "calculate_distance two_digit_ops (- 45) (- 180) 45 0 = Inl ValueError"
  unfolding calculate_distance_cases haversine_a_two_digit by simp

section \<open>Records and rows\<close>

lemma truncate_extend: "Address.truncate (Address.extend a (AddressWithDistance.fields k)) = a"
  by (cases a) (simp add: Address.truncate_def Address.extend_def)

lemma distance_km_extend: "distance_km (Address.extend a (AddressWithDistance.fields k)) = k"
  by (cases a) (simp add: Address.extend_def AddressWithDistance.fields_def)

lemma latitude_extend:
  "Address.latitude (Address.extend a m) = Address.latitude a"
  "Address.longitude (Address.extend a m) = Address.longitude a"
  by (cases a; simp add: Address.extend_def)+

lemma extend_truncate:
  "Address.extend (Address.truncate x) (AddressWithDistance.fields (distance_km x)) = x"
  by (cases x) (simp add: Address.truncate_def Address.extend_def AddressWithDistance.fields_def)

lemma same_key_rows_determined:
  fixes xs ys :: "AddressWithDistance list"
  assumes "\<forall>x\<in>set xs. distance_km x = k" "\<forall>y\<in>set ys. distance_km y = k"
    "map Address.truncate xs = map Address.truncate ys"
  shows "xs = ys"
proof -
  have rebuilt: "map (\<lambda>a. Address.extend a (AddressWithDistance.fields k)) (map Address.truncate zs) = zs"
    if "\<forall>z\<in>set zs. distance_km z = k" for zs :: "AddressWithDistance list"
  proof -
    have "Address.extend (Address.truncate z) (AddressWithDistance.fields k) = z"
      if "z \<in> set zs" for z
      using extend_truncate [of z] \<open>\<forall>z\<in>set zs. distance_km z = k\<close> that by simp
    then show ?thesis by (simp add: map_idI)
  qed
  have "xs = map (\<lambda>a. Address.extend a (AddressWithDistance.fields k)) (map Address.truncate xs)"
    using rebuilt [OF assms(1)] by simp
  also have "\<dots> = map (\<lambda>a. Address.extend a (AddressWithDistance.fields k)) (map Address.truncate ys)"
    by (simp only: assms(3))
  also have "\<dots> = ys" by (rule rebuilt [OF assms(2)])
  finally show ?thesis .
qed

lemma fixture_address_coordinates [simp]:
  "Address.latitude (fixture_address i lat lon) = lat"
  "Address.longitude (fixture_address i lat lon) = lon"
  "id' (fixture_address i lat lon) = i"
  by (simp_all add: fixture_address_def)


section \<open>The loops, in closed form\<close>

lemma nearby_loop_cases:
  "nearby_loop fp lat lon radius xs acc =
     (if \<forall>row\<in>set xs. \<exists>d.
           calculate_distance fp lat lon (Address.latitude row) (Address.longitude row) = Inr d
      then Inr (acc @ filter (\<lambda>row. \<exists>d\<le>radius.
             calculate_distance fp lat lon (Address.latitude row) (Address.longitude row) = Inr d) xs)
      else Inl ValueError)"
proof (induction xs arbitrary: acc)
  case Nil
  show ?case by simp
next
  case (Cons x xs)
  show ?case
  proof (cases "calculate_distance fp lat lon (Address.latitude x) (Address.longitude x)")
    case (Inl e)
    then have "e = ValueError" by (rule calculate_distance_error)
    with Inl show ?thesis by simp
  next
    case (Inr d)
    then show ?thesis by (simp add: Cons.IH)
  qed
qed

lemma distance_loop_cases:
  "distance_loop fp location xs acc =
     (if \<forall>row\<in>set xs. \<exists>d.
           calculate_distance fp (LocationQuery.latitude location)
             (LocationQuery.longitude location)
             (Address.latitude row) (Address.longitude row) = Inr d
      then Inr (acc @ map (\<lambda>row. Address.extend row (AddressWithDistance.fields (py_round fp
             (projr (calculate_distance fp (LocationQuery.latitude location)
                       (LocationQuery.longitude location)
                       (Address.latitude row) (Address.longitude row))) 2))) xs)
      else Inl ValueError)"
proof (induction xs arbitrary: acc)
  case Nil
  show ?case by simp
next
  case (Cons x xs)
  show ?case
  proof (cases "calculate_distance fp (LocationQuery.latitude location)
      (LocationQuery.longitude location) (Address.latitude x) (Address.longitude x)")
    case (Inl e)
    then have "e = ValueError" by (rule calculate_distance_error)
    with Inl show ?thesis by simp
  next
    case (Inr d)
    then show ?thesis by (simp add: Cons.IH)
  qed
qed

lemma filtered_rows_compute:
  assumes "get_addresses_within_radius fp db lat lon radius = Inr addresses"
  shows "addresses = filter (\<lambda>row. \<exists>d\<le>radius.
             calculate_distance fp lat lon (Address.latitude row) (Address.longitude row) = Inr d) db"
    and "\<forall>row\<in>set db. \<exists>d.
           calculate_distance fp lat lon (Address.latitude row) (Address.longitude row) = Inr d"
  using assms
  by (auto simp: get_addresses_within_radius_def nearby_loop_cases split: if_splits)

lemma rank_addresses_cases:
  "rank_addresses fp location addresses =
     (if \<forall>row\<in>set addresses. \<exists>d.
           calculate_distance fp (LocationQuery.latitude location)
             (LocationQuery.longitude location)
             (Address.latitude row) (Address.longitude row) = Inr d
      then Inr (sort_key distance_km
             (map (\<lambda>row. Address.extend row (AddressWithDistance.fields (py_round fp
                (projr (calculate_distance fp (LocationQuery.latitude location)
                          (LocationQuery.longitude location)
                          (Address.latitude row) (Address.longitude row))) 2))) addresses))
      else Inl ValueError)"
  by (simp add: rank_addresses_def distance_loop_cases)

lemma get_nearby_addresses_cases:
  "get_nearby_addresses fp db location =
     (if \<forall>row\<in>set db. \<exists>d.
           calculate_distance fp (LocationQuery.latitude location)
             (LocationQuery.longitude location)
             (Address.latitude row) (Address.longitude row) = Inr d
      then Inr (sort_key distance_km
             (map (\<lambda>row. Address.extend row (AddressWithDistance.fields (py_round fp
                (projr (calculate_distance fp (LocationQuery.latitude location)
                          (LocationQuery.longitude location)
                          (Address.latitude row) (Address.longitude row))) 2)))
               (filter (\<lambda>row. \<exists>d\<le>radius_km location.
                  calculate_distance fp (LocationQuery.latitude location)
                    (LocationQuery.longitude location)
                    (Address.latitude row) (Address.longitude row) = Inr d) db)))
      else Inl (HTTPException 500 ''Failed to find nearby addresses''))"
proof (cases "\<forall>row\<in>set db. \<exists>d.
           calculate_distance fp (LocationQuery.latitude location)
             (LocationQuery.longitude location)
             (Address.latitude row) (Address.longitude row) = Inr d")
  case True
  let ?P = "\<lambda>row. \<exists>d\<le>radius_km location.
                  calculate_distance fp (LocationQuery.latitude location)
                    (LocationQuery.longitude location)
                    (Address.latitude row) (Address.longitude row) = Inr d"
  have w: "get_addresses_within_radius fp db (LocationQuery.latitude location)
      (LocationQuery.longitude location) (radius_km location) = Inr (filter ?P db)"
    unfolding get_addresses_within_radius_def Let_def nearby_loop_cases using True by simp
  have ok: "\<forall>row\<in>set (filter ?P db). \<exists>d.
           calculate_distance fp (LocationQuery.latitude location)
             (LocationQuery.longitude location)
             (Address.latitude row) (Address.longitude row) = Inr d"
    by auto
  show ?thesis
    unfolding get_nearby_addresses_def w rank_addresses_cases
    using True ok by simp
next
  case False
  have w: "get_addresses_within_radius fp db (LocationQuery.latitude location)
      (LocationQuery.longitude location) (radius_km location) = Inl ValueError"
    unfolding get_addresses_within_radius_def Let_def nearby_loop_cases using False by simp
  show ?thesis
    unfolding get_nearby_addresses_def w using False by simp
qed

lemma sorted_key_filters_unique:
  fixes f :: "'a \<Rightarrow> real"
  assumes "sorted (map f xs)" "sorted (map f ys)"
    "\<forall>k. filter (\<lambda>x. f x = k) ys = filter (\<lambda>x. f x = k) xs"
  shows "ys = xs"
proof -
  have m: "mset ys = mset xs"
  proof (rule multiset_eqI)
    fix x
    have "count (mset ys) x = count (mset (filter (\<lambda>y. f y = f x) ys)) x" by simp
    also have "\<dots> = count (mset (filter (\<lambda>y. f y = f x) xs)) x"
      using assms(3) by simp
    also have "\<dots> = count (mset xs) x" by simp
    finally show "count (mset ys) x = count (mset xs) x" .
  qed
  have "sort_key f xs = ys"
  proof (rule properties_for_sort_key)
    show "mset ys = mset xs" by (rule m)
    show "sorted (map f ys)" by (rule assms(2))
    show "filter (\<lambda>x. f k = f x) ys = filter (\<lambda>x. f k = f x) xs" if "k \<in> set ys" for k
    proof -
      have eq: "(\<lambda>x. f k = f x) = (\<lambda>x. f x = f k)" by auto
      show ?thesis unfolding eq using assms(3) by (rule spec)
    qed
  qed
  then show ?thesis by (simp add: sort_key_id_if_sorted [OF assms(1)])
qed

section \<open>Two rows on the equator\<close>

lemma far_row_distance:
  "calculate_distance exact_ops 0 0 0 (1 / 16000) = Inr (EARTH_RADIUS_KM * radians (1 / 16000))"
  using calculate_distance_equator [of "1 / 16000"] by simp

lemma far_row_bounds:
  "1 / 2 < EARTH_RADIUS_KM * radians (1 / 16000) * 100"
  "EARTH_RADIUS_KM * radians (1 / 16000) * 100 < 9 / 10"
  "EARTH_RADIUS_KM * radians (1 / 16000) \<le> 9 / 1000"
proof -
  have dv: "EARTH_RADIUS_KM * radians (1 / 16000) * 100 = 6371 * pi / 28800"
    by (simp add: EARTH_RADIUS_KM_def radians_def)
  show lo: "1 / 2 < EARTH_RADIUS_KM * radians (1 / 16000) * 100"
    unfolding dv using pi_ge_three by simp
  show hi: "EARTH_RADIUS_KM * radians (1 / 16000) * 100 < 9 / 10"
    unfolding dv using pi_less_4 by simp
  show "EARTH_RADIUS_KM * radians (1 / 16000) \<le> 9 / 1000"
    using hi by simp
qed

lemma far_row_rounded: "py_round exact_ops (EARTH_RADIUS_KM * radians (1 / 16000)) 2 = 1 / 100"
proof -
  have "round_half_even (EARTH_RADIUS_KM * radians (1 / 16000) * 100) = 1"
    using far_row_bounds(1,2) by (intro round_half_even_up) simp_all
  then show ?thesis by (simp add: py_round_def)
qed

section \<open>The claims\<close>

subsection \<open>C1: totality and the clamp\<close>

text \<open>
  C1. The specification has \<open>a\<close> clamped into \<open>[0, 1]\<close> before the square roots, so
  that \<open>calculate_distance\<close> returns for all valid coordinates. The code has no clamp:
  line 189 hands \<open>1 - a\<close> to \<^verbatim>\<open>math.sqrt\<close> as computed, and in every arithmetic in which
  that difference comes out negative \<open>calculate_distance\<close> raises \<^verbatim>\<open>ValueError\<close> instead of
  returning a distance.
\<close>

theorem calculate_distance_overshoot_raises:
  "rnd fp (1 - haversine_a fp lat1 lon1 lat2 lon2) < 0 \<Longrightarrow>
     calculate_distance fp lat1 lon1 lat2 lon2 = Inl ValueError"
  unfolding calculate_distance_cases by simp

text \<open>
  Rounding can bring this about at valid coordinates. With sine and cosine rounded to two
  decimals the antipodal points \<open>(-45, -180)\<close> and \<open>(45, 0)\<close> give \<open>a = 1.0082\<close>. In
  double precision the same happens at \<open>(-82, -180)\<close> and \<open>(82, 0)\<close>, where line 188
  computes \<open>1.0000000000000002\<close>.
\<close>

theorem calculate_distance_overshoot_raises_witness:
  "- 90 \<le> (- 45 :: real) \<and> (45 :: real) \<le> 90 \<and> - 180 \<le> (- 180 :: real) \<and> (0 :: real) \<le> 180
   \<and> haversine_a two_digit_ops (- 45) (- 180) 45 0 = 10082 / 10000
   \<and> rnd two_digit_ops (1 - haversine_a two_digit_ops (- 45) (- 180) 45 0) < 0
   \<and> calculate_distance two_digit_ops (- 45) (- 180) 45 0 = Inl ValueError"
proof -
  have h: "rnd two_digit_ops (1 - haversine_a two_digit_ops (- 45) (- 180) 45 0) < 0"
    by (simp add: haversine_a_two_digit)
  show ?thesis
    using h calculate_distance_overshoot_raises [OF h] by (simp add: haversine_a_two_digit)
qed

subsection \<open>C2: the radius filter\<close>

text \<open>
  C2. What \<open>get_addresses_within_radius\<close> does, for every store, reference and radius:
  when the distance of every stored row computes, the result is the store filtered by
  \<open>distance \<le> radius\<close>, in store order, the boundary included; when the distance of some
  row raises, the loop raises with it and no row is returned. The claim holds in the
  first case and fails in the second, which \<open>calculate_distance\<close> reaches for want of
  the clamp.
\<close>

theorem get_addresses_within_radius_cases:
  "get_addresses_within_radius fp db lat lon radius =
     (if \<forall>row\<in>set db. \<exists>d.
           calculate_distance fp lat lon (Address.latitude row) (Address.longitude row) = Inr d
      then Inr (filter (\<lambda>row. \<exists>d\<le>radius.
             calculate_distance fp lat lon (Address.latitude row) (Address.longitude row) = Inr d) db)
      else Inl ValueError)"
  by (simp add: get_addresses_within_radius_def nearby_loop_cases)

text \<open>
  The boundary: the row at 90 degrees of longitude on the equator is a quarter of the
  circumference from the origin, and a search with exactly that radius returns it. The
  failure: with two-digit sine and cosine, a store holding the row \<open>(45, 0)\<close> searched
  from \<open>(-45, -180)\<close> raises, whatever the radius.
\<close>

theorem get_addresses_within_radius_cases_witness:
  "get_addresses_within_radius exact_ops [fixture_address 1 0 90] 0 0
       (EARTH_RADIUS_KM * radians 90) = Inr [fixture_address 1 0 90]
   \<and> get_addresses_within_radius two_digit_ops [fixture_address 1 45 0] (- 45) (- 180) 50000
       = Inl ValueError"
proof -
  have d: "calculate_distance exact_ops 0 0 0 90 = Inr (EARTH_RADIUS_KM * radians 90)"
    using calculate_distance_equator [of 90] by simp
  have 1: "get_addresses_within_radius exact_ops [fixture_address 1 0 90] 0 0
       (EARTH_RADIUS_KM * radians 90) = Inr [fixture_address 1 0 90]"
    unfolding get_addresses_within_radius_cases [of exact_ops "[fixture_address 1 0 90]"]
    by (simp add: d)
  have 2: "get_addresses_within_radius two_digit_ops [fixture_address 1 45 0] (- 45) (- 180) 50000
       = Inl ValueError"
    unfolding get_addresses_within_radius_cases [of two_digit_ops "[fixture_address 1 45 0]"]
    by (simp add: calculate_distance_two_digit)
  from 1 2 show ?thesis by simp
qed

subsection \<open>C3: the ranking step\<close>

text \<open>
  C3. The ranking step runs on the rows the radius filter returned for the same
  reference. For every such list it returns a list of the same length, sorted in
  non-decreasing order of \<open>distance_km\<close>, whose elements are the given rows (each exactly
  as often as given). Each carries as \<open>distance_km\<close> its distance \<open>d\<close> to the reference
  rounded to 2 decimal places: the float of \<open>k / 100\<close> for an integer \<open>k\<close> with
  \<open>k / 100\<close> within \<open>1 / 200\<close> of \<open>d\<close>, and \<open>k\<close> even when \<open>d\<close> lies exactly between two
  such values.
\<close>

theorem rank_addresses_sorted_complete:
  "get_addresses_within_radius fp db (LocationQuery.latitude location)
       (LocationQuery.longitude location) (radius_km location) = Inr addresses \<Longrightarrow>
   \<exists>out. rank_addresses fp location addresses = Inr out
     \<and> length out = length addresses
     \<and> sorted (map distance_km out)
     \<and> mset (map Address.truncate out) = mset addresses
     \<and> (\<forall>x\<in>set out. \<exists>d k.
           calculate_distance fp (LocationQuery.latitude location) (LocationQuery.longitude location)
             (Address.latitude x) (Address.longitude x) = Inr d
           \<and> distance_km x = rnd fp (of_int k / 100)
           \<and> \<bar>of_int k / 100 - d\<bar> \<le> 1 / 200
           \<and> (\<bar>of_int k / 100 - d\<bar> = 1 / 200 \<longrightarrow> even k))"
proof -
  assume f: "get_addresses_within_radius fp db (LocationQuery.latitude location)
       (LocationQuery.longitude location) (radius_km location) = Inr addresses"
  let ?calc = "\<lambda>row. calculate_distance fp (LocationQuery.latitude location)
      (LocationQuery.longitude location) (Address.latitude row) (Address.longitude row)"
  let ?ann = "\<lambda>row. Address.extend row (AddressWithDistance.fields (py_round fp
      (projr (?calc row)) 2))"
  let ?out = "sort_key distance_km (map ?ann addresses)"
  have ok: "\<forall>row\<in>set addresses. \<exists>d. ?calc row = Inr d"
    using filtered_rows_compute [OF f] by auto
  have 1: "rank_addresses fp location addresses = Inr ?out"
    unfolding rank_addresses_cases using ok by simp
  have 2: "length ?out = length addresses" by simp
  have 3: "sorted (map distance_km ?out)" by (rule sorted_sort_key)
  have "mset (map Address.truncate ?out) = image_mset Address.truncate (mset (map ?ann addresses))"
    by (simp only: mset_map mset_sort)
  also have "\<dots> = mset addresses"
    by (simp add: image_mset.compositionality comp_def truncate_extend)
  finally have 4: "mset (map Address.truncate ?out) = mset addresses" .
  have 5: "\<exists>d k. ?calc x = Inr d \<and> distance_km x = rnd fp (of_int k / 100)
           \<and> \<bar>of_int k / 100 - d\<bar> \<le> 1 / 200
           \<and> (\<bar>of_int k / 100 - d\<bar> = 1 / 200 \<longrightarrow> even k)" if "x \<in> set ?out" for x
  proof -
    from that obtain row where r: "row \<in> set addresses" and x: "x = ?ann row" by auto
    from ok r obtain d where d: "?calc row = Inr d" by blast
    obtain k where k: "py_round fp d 2 = rnd fp (of_int k / 100)"
      "\<bar>of_int k / 100 - d\<bar> \<le> 1 / 200" "\<bar>of_int k / 100 - d\<bar> = 1 / 200 \<longrightarrow> even k"
      using py_round_two_digits [of fp d] by blast
    have "?calc x = Inr d" unfolding x by (simp add: latitude_extend d)
    moreover have "distance_km x = rnd fp (of_int k / 100)"
      unfolding x by (simp add: distance_km_extend d k(1))
    ultimately show ?thesis using k(2,3) by blast
  qed
  from 1 2 3 4 5 show ?thesis by blast
qed

text \<open>
  Two rows on the equator, the farther one first in the store: about 6.95 m and 0 m
  from the reference. Both pass the filter with radius 0.009 km; the ranking reports them
  at 0.01 km and 0 km and puts the nearer one first.
\<close>

theorem rank_addresses_sorted_complete_witness:
  "get_addresses_within_radius exact_ops [fixture_address 1 0 (1 / 16000), fixture_address 2 0 0]
       0 0 (9 / 1000)
     = Inr [fixture_address 1 0 (1 / 16000), fixture_address 2 0 0]
   \<and> rank_addresses exact_ops
        \<lparr>LocationQuery.latitude = 0, LocationQuery.longitude = 0, radius_km = 9 / 1000\<rparr>
        [fixture_address 1 0 (1 / 16000), fixture_address 2 0 0]
     = Inr [Address.extend (fixture_address 2 0 0) (AddressWithDistance.fields 0),
            Address.extend (fixture_address 1 0 (1 / 16000)) (AddressWithDistance.fields (1 / 100))]
   \<and> sorted (map distance_km
        [Address.extend (fixture_address 2 0 0) (AddressWithDistance.fields 0),
         Address.extend (fixture_address 1 0 (1 / 16000)) (AddressWithDistance.fields (1 / 100))])"
proof -
  let ?loc = "\<lparr>LocationQuery.latitude = 0, LocationQuery.longitude = 0, radius_km = 9 / 1000\<rparr>"
  let ?db = "[fixture_address 1 0 (1 / 16000), fixture_address 2 0 0]"
  let ?e1 = "Address.extend (fixture_address 1 0 (1 / 16000)) (AddressWithDistance.fields (1 / 100))"
  let ?e2 = "Address.extend (fixture_address 2 0 0) (AddressWithDistance.fields 0)"
  have w: "get_addresses_within_radius exact_ops ?db 0 0 (9 / 1000) = Inr ?db"
    unfolding get_addresses_within_radius_def Let_def nearby_loop_cases
    using far_row_bounds(3) by (simp add: far_row_distance calculate_distance_exact_same)
  then have w': "get_addresses_within_radius exact_ops ?db (LocationQuery.latitude ?loc)
      (LocationQuery.longitude ?loc) (radius_km ?loc) = Inr ?db"
    by simp
  have r: "rank_addresses exact_ops ?loc ?db = Inr [?e2, ?e1]"
    unfolding rank_addresses_cases
    by (simp add: far_row_distance calculate_distance_exact_same far_row_rounded
        py_round_exact_zero distance_km_extend)
  obtain out where o: "rank_addresses exact_ops ?loc ?db = Inr out"
    and s: "sorted (map distance_km out)"
    using rank_addresses_sorted_complete [OF w'] by blast
  from o r have "out = [?e2, ?e1]" by simp
  with s w r show ?thesis by simp
qed

subsection \<open>C4: stable and determined order\<close>

text \<open>
  C4. Whenever the nearby query returns a list, the list is sorted by \<open>distance_km\<close>,
  and for every key \<open>k\<close> the rows reported with \<open>distance_km = k\<close> are, in store order,
  exactly the stored rows within the radius whose rounded distance is \<open>k\<close>: rows of equal
  rounded distance keep the order of the store. The list is the only one with these two
  properties, so the output is fixed by store, query and arithmetic, whatever way the
  stable sort works; a second run over the same store returns the same list. (When some
  distance raises, the query answers the same error on every run, by
  \<open>get_nearby_addresses_cases\<close>.)
\<close>

theorem get_nearby_addresses_stable:
  "get_nearby_addresses fp db location = Inr out \<Longrightarrow>
     sorted (map distance_km out)
   \<and> (\<forall>k. map Address.truncate (filter (\<lambda>x. distance_km x = k) out)
          = filter (\<lambda>row. \<exists>d\<le>radius_km location.
              calculate_distance fp (LocationQuery.latitude location)
                (LocationQuery.longitude location)
                (Address.latitude row) (Address.longitude row) = Inr d
              \<and> py_round fp d 2 = k) db)
   \<and> (\<forall>ys. sorted (map distance_km ys)
          \<and> (\<forall>k. map Address.truncate (filter (\<lambda>x. distance_km x = k) ys)
                 = filter (\<lambda>row. \<exists>d\<le>radius_km location.
                     calculate_distance fp (LocationQuery.latitude location)
                       (LocationQuery.longitude location)
                       (Address.latitude row) (Address.longitude row) = Inr d
                     \<and> py_round fp d 2 = k) db)
          \<longrightarrow> ys = out)"
proof -
  assume r: "get_nearby_addresses fp db location = Inr out"
  let ?calc = "\<lambda>row. calculate_distance fp (LocationQuery.latitude location)
      (LocationQuery.longitude location) (Address.latitude row) (Address.longitude row)"
  let ?P = "\<lambda>row. \<exists>d\<le>radius_km location. ?calc row = Inr d"
  let ?Q = "\<lambda>k row. \<exists>d\<le>radius_km location. ?calc row = Inr d \<and> py_round fp d 2 = k"
  let ?ann = "\<lambda>row. Address.extend row (AddressWithDistance.fields (py_round fp
      (projr (?calc row)) 2))"
  have out: "out = sort_key distance_km (map ?ann (filter ?P db))"
    using r unfolding get_nearby_addresses_cases by (simp split: if_splits)
  have s: "sorted (map distance_km out)"
    unfolding out by (rule sorted_sort_key)
  have st: "map Address.truncate (filter (\<lambda>x. distance_km x = k) out) = filter (?Q k) db" for k
  proof -
    have "filter (\<lambda>x. distance_km x = k) out
        = filter (\<lambda>x. distance_km x = k) (map ?ann (filter ?P db))"
      unfolding out by (rule sort_key_stable)
    also have "\<dots> = map ?ann (filter (\<lambda>row. py_round fp (projr (?calc row)) 2 = k) (filter ?P db))"
      by (simp add: filter_map comp_def distance_km_extend)
    finally have "map Address.truncate (filter (\<lambda>x. distance_km x = k) out)
        = filter (\<lambda>row. py_round fp (projr (?calc row)) 2 = k) (filter ?P db)"
      by (simp add: comp_def truncate_extend)
    also have "\<dots> = filter (?Q k) db"
      unfolding filter_filter by (rule filter_cong) auto
    finally show ?thesis .
  qed
  have u: "ys = out"
    if "sorted (map distance_km ys)
        \<and> (\<forall>k. map Address.truncate (filter (\<lambda>x. distance_km x = k) ys) = filter (?Q k) db)"
    for ys
  proof (rule sorted_key_filters_unique)
    show "sorted (map distance_km out)" by (rule s)
    show "sorted (map distance_km ys)" using that by blast
    show "\<forall>k. filter (\<lambda>x. distance_km x = k) ys = filter (\<lambda>x. distance_km x = k) out"
    proof
      fix k
      have "map Address.truncate (filter (\<lambda>x. distance_km x = k) ys)
          = map Address.truncate (filter (\<lambda>x. distance_km x = k) out)"
        using that st [of k] by simp
      then show "filter (\<lambda>x. distance_km x = k) ys = filter (\<lambda>x. distance_km x = k) out"
        by (intro same_key_rows_determined [of _ k]) simp_all
    qed
  qed
  from s st u show ?thesis by blast
qed

text \<open>
  Three rows: the first about 6.95 m from the reference, the second and third at the
  reference. The query returns the second, the third, then the first: the tie keeps store
  order and the farther row moves to the end.
\<close>

theorem get_nearby_addresses_stable_witness:
  "get_nearby_addresses exact_ops
      [fixture_address 1 0 (1 / 16000), fixture_address 2 0 0, fixture_address 3 0 0]
      \<lparr>LocationQuery.latitude = 0, LocationQuery.longitude = 0, radius_km = 9 / 1000\<rparr>
    = Inr [Address.extend (fixture_address 2 0 0) (AddressWithDistance.fields 0),
           Address.extend (fixture_address 3 0 0) (AddressWithDistance.fields 0),
           Address.extend (fixture_address 1 0 (1 / 16000)) (AddressWithDistance.fields (1 / 100))]
   \<and> map Address.truncate (filter (\<lambda>x. distance_km x = 0)
        [Address.extend (fixture_address 2 0 0) (AddressWithDistance.fields 0),
         Address.extend (fixture_address 3 0 0) (AddressWithDistance.fields 0),
         Address.extend (fixture_address 1 0 (1 / 16000)) (AddressWithDistance.fields (1 / 100))])
     = [fixture_address 2 0 0, fixture_address 3 0 0]"
proof -
  let ?loc = "\<lparr>LocationQuery.latitude = 0, LocationQuery.longitude = 0, radius_km = 9 / 1000\<rparr>"
  let ?db = "[fixture_address 1 0 (1 / 16000), fixture_address 2 0 0, fixture_address 3 0 0]"
  let ?e1 = "Address.extend (fixture_address 1 0 (1 / 16000)) (AddressWithDistance.fields (1 / 100))"
  let ?e2 = "Address.extend (fixture_address 2 0 0) (AddressWithDistance.fields 0)"
  let ?e3 = "Address.extend (fixture_address 3 0 0) (AddressWithDistance.fields 0)"
  have d: "get_nearby_addresses exact_ops ?db ?loc = Inr [?e2, ?e3, ?e1]"
    unfolding get_nearby_addresses_cases
    using far_row_bounds(3)
    by (simp add: far_row_distance calculate_distance_exact_same far_row_rounded
        py_round_exact_zero distance_km_extend)
  have "map Address.truncate (filter (\<lambda>x. distance_km x = 0) [?e2, ?e3, ?e1])
      = filter (\<lambda>row. \<exists>d\<le>radius_km ?loc.
              calculate_distance exact_ops (LocationQuery.latitude ?loc)
                (LocationQuery.longitude ?loc)
                (Address.latitude row) (Address.longitude row) = Inr d
              \<and> py_round exact_ops d 2 = 0) ?db"
    using get_nearby_addresses_stable [OF d] by blast
  also have "\<dots> = [fixture_address 2 0 0, fixture_address 3 0 0]"
    using far_row_bounds(3)
    by (simp add: far_row_distance calculate_distance_exact_same far_row_rounded
        py_round_exact_zero)
  finally show ?thesis using d by simp
qed

subsection \<open>C5 and C6: symmetry and identity\<close>

text \<open>
  C5. The distance calculator is symmetric: exchanging the two points does not change
  the result of \<open>calculate_distance\<close>, for any two coordinates. This holds in exact
  arithmetic, and in every arithmetic whose rounding and sine are odd functions and whose
  square is even, as in double precision.
\<close>

theorem calculate_distance_symmetric:
  "calculate_distance exact_ops lat1 lon1 lat2 lon2 = calculate_distance exact_ops lat2 lon2 lat1 lon1
   \<and> ((\<forall>x. rnd fp (- x) = - rnd fp x) \<and> (\<forall>x. fsin fp (- x) = - fsin fp x)
        \<and> (\<forall>x. fpow2 fp (- x) = fpow2 fp x)
      \<longrightarrow> calculate_distance fp lat1 lon1 lat2 lon2 = calculate_distance fp lat2 lon2 lat1 lon1)"
proof -
  have g: "calculate_distance fp lat1 lon1 lat2 lon2 = calculate_distance fp lat2 lon2 lat1 lon1"
    if "\<forall>x. rnd fp (- x) = - rnd fp x" "\<forall>x. fsin fp (- x) = - fsin fp x"
      "\<forall>x. fpow2 fp (- x) = fpow2 fp x" for fp
    by (simp add: calculate_distance_def haversine_a_swap [OF that, of lat1 lon1 lat2 lon2])
  have "calculate_distance exact_ops lat1 lon1 lat2 lon2
      = calculate_distance exact_ops lat2 lon2 lat1 lon1"
    by (rule g) simp_all
  with g [of fp] show ?thesis by blast
qed

text \<open>
  The exact arithmetic meets the three conditions.
\<close>

theorem calculate_distance_symmetric_witness:
  "(\<forall>x. rnd exact_ops (- x) = - rnd exact_ops x) \<and> (\<forall>x. fsin exact_ops (- x) = - fsin exact_ops x)
   \<and> (\<forall>x. fpow2 exact_ops (- x) = fpow2 exact_ops x)
   \<and> calculate_distance exact_ops 10 20 30 40 = calculate_distance exact_ops 30 40 10 20"
  using calculate_distance_symmetric [of 10 20 30 40 exact_ops] by simp

text \<open>
  C6. The distance from a coordinate to itself is 0: \<open>calculate_distance\<close> returns
  exactly 0 there, which is within the tolerance of \<open>10 ^ -9\<close> km. This holds in exact
  arithmetic, and in every arithmetic that represents 0 and 1 and whose sine, square,
  square root and arc tangent are exact at 0 and 1, as in double precision.
\<close>

theorem calculate_distance_identity:
  "(\<exists>d. calculate_distance exact_ops lat lon lat lon = Inr d \<and> d = 0 \<and> \<bar>d\<bar> \<le> 1 / 10 ^ 9)
   \<and> (rnd fp 0 = 0 \<and> rnd fp 1 = 1 \<and> fsin fp 0 = 0 \<and> fpow2 fp 0 = 0 \<and> fsqrt fp 0 = 0
        \<and> fsqrt fp 1 = 1 \<and> fatan2 fp 0 1 = 0
      \<longrightarrow> calculate_distance fp lat lon lat lon = Inr 0)"
proof -
  have g: "calculate_distance fp lat lon lat lon = Inr 0"
    if "rnd fp 0 = 0 \<and> rnd fp 1 = 1 \<and> fsin fp 0 = 0 \<and> fpow2 fp 0 = 0 \<and> fsqrt fp 0 = 0
        \<and> fsqrt fp 1 = 1 \<and> fatan2 fp 0 1 = 0"
  proof -
    have a: "haversine_a fp lat lon lat lon = 0"
      using that by (simp add: haversine_a_def)
    show ?thesis
      unfolding calculate_distance_cases a using that by simp
  qed
  have "calculate_distance exact_ops lat lon lat lon = Inr 0"
    by (rule calculate_distance_exact_same)
  with g show ?thesis by simp
qed

text \<open>
  The exact arithmetic meets the conditions.
\<close>

theorem calculate_distance_identity_witness:
  "rnd exact_ops 0 = 0 \<and> rnd exact_ops 1 = 1 \<and> fsin exact_ops 0 = 0 \<and> fpow2 exact_ops 0 = 0
   \<and> fsqrt exact_ops 0 = 0 \<and> fsqrt exact_ops 1 = 1 \<and> fatan2 exact_ops 0 1 = 0
   \<and> calculate_distance exact_ops 12 34 12 34 = Inr 0"
  using calculate_distance_identity [of 12 34 exact_ops] by (simp add: atan2_def)

subsection \<open>C7: the empty store\<close>

text \<open>
  C7. On a store with no rows the radius filter and the nearby query return the empty
  list, not an error, in every arithmetic; so does the route for every valid reference and
  positive radius.
\<close>

theorem get_nearby_addresses_empty_store:
  "get_addresses_within_radius fp [] lat lon radius = Inr []
   \<and> get_nearby_addresses fp [] location = Inr []
   \<and> (- 90 \<le> lat \<and> lat \<le> 90 \<and> - 180 \<le> lon \<and> lon \<le> 180 \<and> 0 < radius
        \<longrightarrow> post_addresses_nearby fp [] lat lon radius = Inr [])"
  by (simp add: get_addresses_within_radius_def get_nearby_addresses_def rank_addresses_def
      post_addresses_nearby_def validate_LocationQuery_def check_ge_le_def check_gt_def)

text \<open>
  The reference \<open>(0, 0)\<close> with radius 1 is valid, and the route returns the empty list.
\<close>

theorem get_nearby_addresses_empty_store_witness:
  "- 90 \<le> (0::real) \<and> (0::real) \<le> 90 \<and> - 180 \<le> (0::real) \<and> (0::real) \<le> 180 \<and> 0 < (1::real)
   \<and> post_addresses_nearby exact_ops [] 0 0 1 = Inr []"
  using get_nearby_addresses_empty_store [of exact_ops 0 0 1] by simp

subsection \<open>C8: validation before the core\<close>

text \<open>
  C8. A request whose radius is zero or negative, whose latitude is outside
  \<open>[-90, 90]\<close> or whose longitude is outside \<open>[-180, 180]\<close> is answered with a
  non-empty list of validation errors; the handler runs only on a request that satisfies
  all three constraints, and then on exactly the values of the request.
\<close>

theorem location_query_rejected_before_core:
  "(radius \<le> 0 \<or> lat < - 90 \<or> 90 < lat \<or> lon < - 180 \<or> 180 < lon
      \<longrightarrow> (\<exists>errors. errors \<noteq> [] \<and> validate_LocationQuery lat lon radius = Inl errors
            \<and> post_addresses_nearby fp db lat lon radius = Inl (RequestValidationError errors)))
   \<and> (0 < radius \<and> - 90 \<le> lat \<and> lat \<le> 90 \<and> - 180 \<le> lon \<and> lon \<le> 180
      \<longrightarrow> post_addresses_nearby fp db lat lon radius =
            get_nearby_addresses fp db
              \<lparr>LocationQuery.latitude = lat, LocationQuery.longitude = lon, radius_km = radius\<rparr>)"
  by (auto simp: post_addresses_nearby_def validate_LocationQuery_def check_ge_le_def
      check_gt_def Let_def)

text \<open>
  Radius 0 and latitude 91 are rejected; the reference \<open>(0, 0)\<close> with radius 1 reaches
  the handler.
\<close>

theorem location_query_rejected_before_core_witness:
  "(0::real) \<le> 0
   \<and> post_addresses_nearby exact_ops [] 0 0 0
        = Inl (RequestValidationError [(''radius_km'', greater_than)])
   \<and> post_addresses_nearby exact_ops [] 91 0 1
        = Inl (RequestValidationError [(''latitude'', less_than_equal)])
   \<and> 0 < (1::real) \<and> - 90 \<le> (0::real) \<and> (0::real) \<le> 90 \<and> - 180 \<le> (0::real) \<and> (0::real) \<le> 180
   \<and> post_addresses_nearby exact_ops [] 0 0 1 =
        get_nearby_addresses exact_ops []
          \<lparr>LocationQuery.latitude = 0, LocationQuery.longitude = 0, radius_km = 1\<rparr>"
  using location_query_rejected_before_core [of 0 0 0 exact_ops "[]"]
    location_query_rejected_before_core [of 1 91 0 exact_ops "[]"]
    location_query_rejected_before_core [of 1 0 0 exact_ops "[]"]
  by (simp add: validate_LocationQuery_def check_ge_le_def check_gt_def)

subsection \<open>C9: membership on the exact distance, report of the rounded one\<close>

text \<open>
  C9. There is a store and a valid query for which the route returns a row whose reported
  \<open>distance_km\<close> is above the radius although its distance is within it: the row on the
  equator at longitude 1/16000 degree is about 6.95 m from the origin; with the radius
  0.009 km it passes the filter and is reported at 0.01 km.
\<close>

theorem reported_distance_exceeds_radius:
  "\<exists>x d. post_addresses_nearby exact_ops [fixture_address 1 0 (1 / 16000)] 0 0 (9 / 1000) = Inr [x]
     \<and> calculate_distance exact_ops 0 0 (Address.latitude x) (Address.longitude x) = Inr d
     \<and> d \<le> 9 / 1000 \<and> 9 / 1000 < distance_km x"
proof -
  let ?f = "fixture_address 1 0 (1 / 16000)"
  let ?d = "EARTH_RADIUS_KM * radians (1 / 16000)"
  let ?x = "Address.extend ?f (AddressWithDistance.fields (1 / 100))"
  let ?loc = "\<lparr>LocationQuery.latitude = 0, LocationQuery.longitude = 0, radius_km = 9 / 1000\<rparr>"
  have v: "validate_LocationQuery 0 0 (9 / 1000) = Inr ?loc"
    by (simp add: validate_LocationQuery_def check_ge_le_def check_gt_def)
  have w: "get_addresses_within_radius exact_ops [?f] 0 0 (9 / 1000) = Inr [?f]"
    unfolding get_addresses_within_radius_def Let_def nearby_loop_cases
    using far_row_bounds(3) by (simp add: far_row_distance)
  have k: "rank_addresses exact_ops ?loc [?f] = Inr [?x]"
    unfolding rank_addresses_cases
    by (simp add: far_row_distance far_row_rounded)
  have "post_addresses_nearby exact_ops [?f] 0 0 (9 / 1000) = Inr [?x]"
    by (simp add: post_addresses_nearby_def v get_nearby_addresses_def w k)
  moreover have "calculate_distance exact_ops 0 0 (Address.latitude ?x) (Address.longitude ?x)
      = Inr ?d"
    by (simp add: latitude_extend far_row_distance)
  moreover have "9 / 1000 < distance_km ?x"
    by (simp add: distance_km_extend)
  ultimately show ?thesis using far_row_bounds(3) by blast
qed

subsection \<open>C10: update and delete on a missing id\<close>



end
